theory Spec2Isabelle
  imports Main "HOL-Library.Word"
begin

section \<open>Status codes\<close>

text \<open>
  The \<open>status_t\<close> values that the sources return (utils/Errors.h). Only their identity
  matters in the code below, never their numeric value.
\<close>

datatype status_t =
  NO_ERROR | UNKNOWN_ERROR | BAD_VALUE | INVALID_OPERATION | DEAD_OBJECT | WOULD_BLOCK

section \<open>Window validation (ControlThread.cpp, verifyCameraWindow)\<close>

text \<open>
  \<open>CameraWindow\<close> has five \<open>int\<close> fields. The function only compares them, so the
  fields are modelled as mathematical integers.
\<close>

record CameraWindow =
  x_left :: int
  y_top :: int
  x_right :: int
  y_bottom :: int
  weight :: int

definition verifyCameraWindow :: "CameraWindow \<Rightarrow> bool" where
  "verifyCameraWindow win =
     (if x_right win \<le> x_left win \<or> y_bottom win \<le> y_top win then False
      else if y_top win < -1000 \<or> y_top win > 1000 then False
      else if y_bottom win < -1000 \<or> y_bottom win > 1000 then False
      else if x_right win < -1000 \<or> x_right win > 1000 then False
      else if x_left win < -1000 \<or> x_left win > 1000 then False
      else if weight win < 1 \<or> weight win > 1000 then False
      else True)"

section \<open>The message queue (MessageQueue.h)\<close>

text \<open>
  The message ids of the control thread, as they appear in the \<open>switch\<close> of
  \<open>ControlThread::waitForAndExecuteMessage\<close>. The C++ value \<open>(MessageId) -1\<close>, which
  stands for "no reply wanted", is \<open>None\<close> of \<open>MessageId option\<close>.
\<close>

datatype MessageId =
    MESSAGE_ID_EXIT
  | MESSAGE_ID_START_PREVIEW
  | MESSAGE_ID_STOP_PREVIEW
  | MESSAGE_ID_START_RECORDING
  | MESSAGE_ID_STOP_RECORDING
  | MESSAGE_ID_RELEASE_PREVIEW_FRAME
  | MESSAGE_ID_TAKE_PICTURE
  | MESSAGE_ID_CANCEL_PICTURE
  | MESSAGE_ID_AUTO_FOCUS
  | MESSAGE_ID_CANCEL_AUTO_FOCUS
  | MESSAGE_ID_RELEASE_RECORDING_FRAME
  | MESSAGE_ID_PREVIEW_DONE
  | MESSAGE_ID_PICTURE_DONE
  | MESSAGE_ID_REDEYE_REMOVAL_DONE
  | MESSAGE_ID_AUTO_FOCUS_DONE
  | MESSAGE_ID_SET_PARAMETERS
  | MESSAGE_ID_GET_PARAMETERS
  | MESSAGE_ID_COMMAND

text \<open>
  A message is its id and a payload; the queue is generic in the payload. \<open>mList\<close> is
  the \<open>List\<close> of the source with its front at the head. \<open>mReplyStatus\<close> is the array
  of reply slots, indexed by message id; it exists only when \<open>mNumReply > 0\<close>, and the
  control thread provisions one slot for every id (\<open>MESSAGE_ID_MAX\<close> of them).
\<close>

record 'd Message =
  id :: MessageId
  data :: 'd

record 'd MessageQueue =
  mList :: "'d Message list"
  mNumReply :: nat
  mReplyStatus :: "MessageId \<Rightarrow> status_t"

definition isEmpty :: "'d MessageQueue \<Rightarrow> bool" where
  "isEmpty q = (length (mList q) = 0)"

text \<open>
  \<open>reply\<close> stores the status in the slot and signals the condition. The source does
  not check that slots exist; its callers do (\<open>mNumReply > 0\<close>).
\<close>

definition reply :: "'d MessageQueue \<Rightarrow> MessageId \<Rightarrow> status_t \<Rightarrow> 'd MessageQueue" where
  "reply q replyId status = q\<lparr>mReplyStatus := (mReplyStatus q)(replyId := status)\<rparr>"

text \<open>
  \<open>send\<close> runs in the caller's thread. Its first half, under the queue lock, pushes
  the message at the front and marks the slot \<open>WOULD_BLOCK\<close>. Without a reply id the
  call then returns \<open>NO_ERROR\<close>; with one it enters the wait loop on the slot
  (\<open>Waits\<close>). \<open>send_wakeup\<close> is the exit test of that loop on a later state of the
  queue: \<open>None\<close> while the slot still holds \<open>WOULD_BLOCK\<close>, the slot's status otherwise.
\<close>

datatype send_outcome = Returned status_t | Waits MessageId

definition send :: "'d MessageQueue \<Rightarrow> 'd Message \<Rightarrow> MessageId option
    \<Rightarrow> 'd MessageQueue \<times> send_outcome" where
  "send q msg replyId =
     (if replyId \<noteq> None \<and> mNumReply q = 0 then (q, Returned BAD_VALUE)
      else
        (case replyId of
           None \<Rightarrow> (q\<lparr>mList := msg # mList q\<rparr>, Returned NO_ERROR)
         | Some r \<Rightarrow>
             (q\<lparr>mList := msg # mList q,
                mReplyStatus := (mReplyStatus q)(r := WOULD_BLOCK)\<rparr>, Waits r)))"

definition send_wakeup :: "'d MessageQueue \<Rightarrow> MessageId \<Rightarrow> status_t option" where
  "send_wakeup q r =
     (if mReplyStatus q r = WOULD_BLOCK then None else Some (mReplyStatus q r))"

text \<open>
  \<open>receive\<close> waits while the queue is empty (\<open>None\<close>: the consumer stays blocked);
  otherwise it takes the element at the back of the list.
\<close>

definition receive :: "'d MessageQueue \<Rightarrow> ('d Message \<times> 'd MessageQueue) option" where
  "receive q =
     (if isEmpty q then None
      else Some (last (mList q), q\<lparr>mList := butlast (mList q)\<rparr>))"

text \<open>
  \<open>remove\<close> returns at once on an empty queue. Otherwise it erases every message
  with the given id, pushing each onto \<open>vect\<close> in list order (returned here as the third
  component), and then, when reply slots exist, resolves the slot of that id with
  \<open>INVALID_OPERATION\<close>.
\<close>

definition remove :: "'d MessageQueue \<Rightarrow> MessageId
    \<Rightarrow> status_t \<times> 'd MessageQueue \<times> 'd Message list" where
  "remove q i =
     (if isEmpty q then (NO_ERROR, q, [])
      else
        (let vect = filter (\<lambda>msg. id msg = i) (mList q);
             q1 = q\<lparr>mList := filter (\<lambda>msg. id msg \<noteq> i) (mList q)\<rparr>;
             q2 = (if mNumReply q1 > 0 then reply q1 i INVALID_OPERATION else q1)
         in (NO_ERROR, q2, vect)))"

text \<open>
  A producer's sequence of \<open>send\<close> calls, keeping only the queue, and a consumer's
  \<open>n\<close> successive \<open>receive\<close> calls, collecting what they return.
\<close>

fun send_all :: "'d MessageQueue \<Rightarrow> ('d Message \<times> MessageId option) list \<Rightarrow> 'd MessageQueue" where
  "send_all q [] = q"
| "send_all q ((msg, r) # rest) = send_all (fst (send q msg r)) rest"

fun receive_n :: "nat \<Rightarrow> 'd MessageQueue \<Rightarrow> ('d Message list \<times> 'd MessageQueue) option" where
  "receive_n 0 q = Some ([], q)"
| "receive_n (Suc n) q =
     (case receive q of
        None \<Rightarrow> None
      | Some (msg, q1) \<Rightarrow>
          (case receive_n n q1 of
             None \<Rightarrow> None
           | Some (msgs, q2) \<Rightarrow> Some (msg # msgs, q2)))"

text \<open>A send is enqueued unless it asks for a reply on a queue without reply slots.\<close>

definition enqueued :: "'d MessageQueue \<Rightarrow> ('d Message \<times> MessageId option) \<Rightarrow> bool" where
  "enqueued q req = (\<not> (snd req \<noteq> None \<and> mNumReply q = 0))"

section \<open>The capture device behind the driver's ioctls\<close>

text \<open>
  Modelled from the spec: the CaptureDevice port (\<open>requestBuffers\<close>, \<open>queueBuffer\<close>,
  \<open>dequeueBuffer\<close>, \<open>streamOff\<close>). The kernel side of the V4L2 ioctls is not part of the
  repository. The device keeps the number of buffers granted by the last
  \<open>VIDIOC_REQBUFS\<close>, the indices it currently holds (oldest first), and a log of every
  index submitted with \<open>VIDIOC_QBUF\<close>, accepted or not. It accepts a \<open>VIDIOC_QBUF\<close> only
  for a granted index that it does not hold already, and answers \<open>VIDIOC_DQBUF\<close> only
  when it holds a buffer. Besides, every ioctl may fail for reasons of the hardware:
  the record \<open>hw\<close> says, for one call of a driver function, which ioctls the
  hardware lets through.
\<close>

record v4l2_dev =
  dev_count :: nat
  dev_queue :: "nat list"
  dev_qbuf_log :: "nat list"

record hw =
  hw_open :: bool
  hw_s_parm :: bool
  hw_s_fmt :: bool
  hw_reqbufs :: bool
  hw_querybuf :: "nat \<Rightarrow> bool"
  hw_qbuf :: "nat \<Rightarrow> bool"
  hw_dqbuf :: bool
  hw_streamon :: bool
  hw_streamoff :: bool

definition ioctl_REQBUFS :: "hw \<Rightarrow> nat \<Rightarrow> v4l2_dev \<Rightarrow> bool \<times> v4l2_dev" where
  "ioctl_REQBUFS h n d =
     (if hw_reqbufs h then (True, d\<lparr>dev_count := n, dev_queue := []\<rparr>) else (False, d))"

definition ioctl_QBUF :: "hw \<Rightarrow> nat \<Rightarrow> v4l2_dev \<Rightarrow> bool \<times> v4l2_dev" where
  "ioctl_QBUF h i d =
     (if hw_qbuf h i \<and> i < dev_count d \<and> i \<notin> set (dev_queue d)
      then (True, d\<lparr>dev_queue := dev_queue d @ [i], dev_qbuf_log := dev_qbuf_log d @ [i]\<rparr>)
      else (False, d\<lparr>dev_qbuf_log := dev_qbuf_log d @ [i]\<rparr>))"

definition ioctl_DQBUF :: "hw \<Rightarrow> v4l2_dev \<Rightarrow> (nat \<times> v4l2_dev) option" where
  "ioctl_DQBUF h d =
     (case dev_queue d of
        [] \<Rightarrow> None
      | i # rest \<Rightarrow> if hw_dqbuf h then Some (i, d\<lparr>dev_queue := rest\<rparr>) else None)"

definition ioctl_STREAMOFF :: "hw \<Rightarrow> v4l2_dev \<Rightarrow> v4l2_dev" where
  "ioctl_STREAMOFF h d = (if hw_streamoff h then d\<lparr>dev_queue := []\<rparr> else d)"

section \<open>The camera driver (CameraDriver)\<close>

text \<open>
  A \<open>CameraBuffer\<close> carries its index in the pool (\<open>mID\<close>), the session tag
  (\<open>mDriverPrivate\<close>) and its memory (\<open>buff\<close>: \<open>None\<close> for a null pointer, otherwise the
  address of the data). Consumers hold copies of it. The session id is a machine
  integer, so it is a 32-bit word and \<open>mSessionId++\<close> wraps.
\<close>

record CameraBuffer =
  mID :: int
  mDriverPrivate :: "32 word"
  buff :: "nat option"

record DriverBuffer =
  camBuff :: CameraBuffer
  vBuff :: nat

record BufferPool =
  numBuffers :: int
  numBuffersQueued :: int
  bufs :: "DriverBuffer list option"

datatype Mode = MODE_NONE | MODE_PREVIEW | MODE_CAPTURE | MODE_VIDEO

text \<open>
  The part of the driver's state that the buffer and session code reads and writes.
  \<open>fd_open\<close> stands for \<open>mCameraSensor[mCameraId]->fd >= 0\<close>; \<open>preview_padding\<close> and
  \<open>preview_height\<close> are \<open>mConfig.preview.padding\<close> and \<open>mConfig.preview.height\<close>.
  \<open>dev\<close> is the device the file descriptor refers to.
\<close>

record CameraDriver =
  mMode :: Mode
  mSessionId :: "32 word"
  mBufferPool :: BufferPool
  fd_open :: bool
  preview_padding :: int
  preview_height :: int
  dev :: v4l2_dev

text \<open>\<open>memset(&mBufferPool, 0, sizeof(mBufferPool))\<close>.\<close>

definition zeroPool :: BufferPool where
  "zeroPool = \<lparr>numBuffers = 0, numBuffersQueued = 0, bufs = None\<rparr>"

text \<open>
  The state the constructor leaves: no mode, session 0, an empty pool, the device
  closed again. The preview frame size comes from \<open>setPreviewFrameSize\<close>, whose helper
  \<open>paddingWidth\<close> is not part of the sources, so padding and height are parameters.
\<close>

definition CameraDriver_init :: "int \<Rightarrow> int \<Rightarrow> CameraDriver" where
  "CameraDriver_init padding height =
     \<lparr>mMode = MODE_NONE, mSessionId = 0, mBufferPool = zeroPool, fd_open = False,
      preview_padding = padding, preview_height = height,
      dev = \<lparr>dev_count = 0, dev_queue = [], dev_qbuf_log = []\<rparr>\<rparr>"

text \<open>
  \<open>allocateBuffer\<close> queries the buffer and binds memory to it; the address comes from
  the external allocator (parameter \<open>addr\<close>). The tag of a fresh buffer is written
  at its first dequeue; until then it is taken as 0.
\<close>

definition allocateBuffer :: "hw \<Rightarrow> (nat \<Rightarrow> nat) \<Rightarrow> nat \<Rightarrow> DriverBuffer option" where
  "allocateBuffer h addr index =
     (if hw_querybuf h index
      then Some \<lparr>camBuff = \<lparr>mID = int index, mDriverPrivate = 0, buff = Some (addr index)\<rparr>,
                 vBuff = index\<rparr>
      else None)"

text \<open>
  The loop of \<open>allocateBuffers\<close>: it stops at the first index whose query fails
  (\<open>None\<close>), otherwise it returns the buffers bound so far.
\<close>

fun allocateLoop :: "hw \<Rightarrow> (nat \<Rightarrow> nat) \<Rightarrow> nat list \<Rightarrow> DriverBuffer list option" where
  "allocateLoop h addr [] = Some []"
| "allocateLoop h addr (i # rest) =
     (case allocateBuffer h addr i of
        None \<Rightarrow> None
      | Some b \<Rightarrow>
          (case allocateLoop h addr rest of
             None \<Rightarrow> None
           | Some bs \<Rightarrow> Some (b # bs)))"

text \<open>
  \<open>allocateBuffers\<close>: refuses when buffers exist; requests the buffers from the
  device; binds them one by one; on a failure releases what it bound and zeroes the
  pool (the device's grant is not undone). Its only caller passes the positive constant
  \<open>NUM_DEFAULT_BUFFERS\<close>, so the count is a natural number.
\<close>

definition allocateBuffers :: "hw \<Rightarrow> (nat \<Rightarrow> nat) \<Rightarrow> nat \<Rightarrow> CameraDriver
    \<Rightarrow> status_t \<times> CameraDriver" where
  "allocateBuffers h addr n s =
     (if bufs (mBufferPool s) \<noteq> None then (UNKNOWN_ERROR, s)
      else
        (case ioctl_REQBUFS h n (dev s) of
           (False, d) \<Rightarrow> (UNKNOWN_ERROR, s)
         | (True, d) \<Rightarrow>
             (case allocateLoop h addr [0..<n] of
                None \<Rightarrow> (UNKNOWN_ERROR, s\<lparr>dev := d, mBufferPool := zeroPool\<rparr>)
              | Some bs \<Rightarrow>
                  (NO_ERROR,
                   s\<lparr>dev := d,
                     mBufferPool := (mBufferPool s)
                       \<lparr>bufs := Some bs,
                        numBuffers := numBuffers (mBufferPool s) + int n\<rparr>\<rparr>))))"

text \<open>
  \<open>freeBuffers\<close>: nothing to do without buffers; otherwise it releases the memory,
  hands the buffers back to the device (an error there is only logged) and zeroes the
  pool.
\<close>

definition freeBuffers :: "hw \<Rightarrow> CameraDriver \<Rightarrow> status_t \<times> CameraDriver" where
  "freeBuffers h s =
     (if bufs (mBufferPool s) = None then (NO_ERROR, s)
      else (NO_ERROR, s\<lparr>dev := snd (ioctl_REQBUFS h 0 (dev s)), mBufferPool := zeroPool\<rparr>))"

text \<open>
  \<open>queueBuffer\<close>. Outside the initial fill the session tag is checked first. Then
  the buffer's \<open>v4l2_buffer\<close> is looked up in the pool by \<open>getID()\<close>; the source does
  not check the index, so a null pool or an index outside it is undefined behaviour
  (\<open>None\<close>). The counter goes up only when the device took the buffer.
\<close>

definition queueBuffer :: "hw \<Rightarrow> CameraBuffer \<Rightarrow> bool \<Rightarrow> CameraDriver
    \<Rightarrow> (status_t \<times> CameraDriver) option" where
  "queueBuffer h b init s =
     (if \<not> init \<and> mDriverPrivate b \<noteq> mSessionId s then Some (DEAD_OBJECT, s)
      else
        (case bufs (mBufferPool s) of
           None \<Rightarrow> None
         | Some bs \<Rightarrow>
             if 0 \<le> mID b \<and> mID b < int (length bs) then
               (case ioctl_QBUF h (vBuff (bs ! nat (mID b))) (dev s) of
                  (False, d) \<Rightarrow> Some (UNKNOWN_ERROR, s\<lparr>dev := d\<rparr>)
                | (True, d) \<Rightarrow>
                    Some (NO_ERROR,
                          s\<lparr>dev := d,
                            mBufferPool := (mBufferPool s)
                              \<lparr>numBuffersQueued := numBuffersQueued (mBufferPool s) + 1\<rparr>\<rparr>))
             else None))"

text \<open>
  \<open>dequeueBuffer\<close>: asks the device for a filled buffer, stamps the pool's buffer of
  that index with the current session id, lowers the counter and returns the buffer.
  An index outside the pool is undefined behaviour (\<open>None\<close>).
\<close>

definition dequeueBuffer :: "hw \<Rightarrow> CameraDriver
    \<Rightarrow> (status_t \<times> CameraBuffer option \<times> CameraDriver) option" where
  "dequeueBuffer h s =
     (case ioctl_DQBUF h (dev s) of
        None \<Rightarrow> Some (UNKNOWN_ERROR, None, s)
      | Some (index, d) \<Rightarrow>
          (case bufs (mBufferPool s) of
             None \<Rightarrow> None
           | Some bs \<Rightarrow>
               if index < length bs then
                 (let camBuf = (camBuff (bs ! index))
                        \<lparr>mID := int index, mDriverPrivate := mSessionId s\<rparr>
                  in Some (NO_ERROR, Some camBuf,
                           s\<lparr>dev := d,
                             mBufferPool := (mBufferPool s)
                               \<lparr>bufs := Some (bs[index := (bs ! index)\<lparr>camBuff := camBuf\<rparr>]),
                                numBuffersQueued := numBuffersQueued (mBufferPool s) - 1\<rparr>\<rparr>))
               else None))"

definition dataAvailable :: "CameraDriver \<Rightarrow> bool" where
  "dataAvailable s = (numBuffersQueued (mBufferPool s) > 0)"

definition isBufferValid :: "CameraDriver \<Rightarrow> CameraBuffer \<Rightarrow> bool" where
  "isBufferValid s b = (mDriverPrivate b = mSessionId s)"

text \<open>
  \<open>startDevice\<close> queues every buffer of the pool with the initial-fill flag and then
  turns streaming on; it gives up at the first buffer the device refuses. Reading
  \<open>bufs[i]\<close> outside the pool is undefined behaviour (\<open>None\<close>).
\<close>

fun startDeviceLoop :: "hw \<Rightarrow> nat list \<Rightarrow> CameraDriver \<Rightarrow> (bool \<times> CameraDriver) option" where
  "startDeviceLoop h [] s = Some (True, s)"
| "startDeviceLoop h (i # rest) s =
     (case bufs (mBufferPool s) of
        None \<Rightarrow> None
      | Some bs \<Rightarrow>
          if i < length bs then
            (case queueBuffer h (camBuff (bs ! i)) True s of
               None \<Rightarrow> None
             | Some (status, s1) \<Rightarrow>
                 if status \<noteq> NO_ERROR then Some (False, s1)
                 else startDeviceLoop h rest s1)
          else None)"

definition startDevice :: "hw \<Rightarrow> CameraDriver \<Rightarrow> (bool \<times> CameraDriver) option" where
  "startDevice h s =
     (case startDeviceLoop h [0..<nat (numBuffers (mBufferPool s))] s of
        None \<Rightarrow> None
      | Some (False, s1) \<Rightarrow> Some (False, s1)
      | Some (True, s1) \<Rightarrow> Some (hw_streamon h, s1))"

definition stopDevice :: "hw \<Rightarrow> CameraDriver \<Rightarrow> CameraDriver" where
  "stopDevice h s = s\<lparr>dev := ioctl_STREAMOFF h (dev s)\<rparr>"

definition openDevice :: "hw \<Rightarrow> CameraDriver \<Rightarrow> bool \<times> CameraDriver" where
  "openDevice h s =
     (if fd_open s then (True, s)
      else if hw_open h then (True, s\<lparr>fd_open := True\<rparr>)
      else (False, s))"

definition closeDevice :: "CameraDriver \<Rightarrow> CameraDriver" where
  "closeDevice s = (if \<not> fd_open s then s else s\<lparr>fd_open := False\<rparr>)"

definition configureDevice :: "hw \<Rightarrow> (nat \<Rightarrow> nat) \<Rightarrow> Mode \<Rightarrow> int \<Rightarrow> int \<Rightarrow> nat
    \<Rightarrow> CameraDriver \<Rightarrow> bool \<times> CameraDriver" where
  "configureDevice h addr deviceMode w hgt n s =
     (if w \<le> 0 \<or> hgt \<le> 0 then (False, s)
      else if \<not> hw_s_parm h then (False, s)
      else if \<not> hw_s_fmt h then (False, s)
      else
        (case allocateBuffers h addr n s of
           (status, s1) \<Rightarrow> (status = NO_ERROR, s1)))"

definition deconfigureDevice :: "hw \<Rightarrow> CameraDriver \<Rightarrow> CameraDriver" where
  "deconfigureDevice h s = snd (freeBuffers h s)"

text \<open>
  \<open>startPreview\<close>, \<open>startRecording\<close> and \<open>startCapture\<close> have the same body but for
  the capture mode they pass on: open, configure (with \<open>NUM_DEFAULT_BUFFERS\<close>, a constant
  of the missing header, here the parameter \<open>ndef\<close>), start; a failure unwinds what
  was done.
\<close>

definition startStream :: "hw \<Rightarrow> (nat \<Rightarrow> nat) \<Rightarrow> nat \<Rightarrow> Mode \<Rightarrow> CameraDriver
    \<Rightarrow> (status_t \<times> CameraDriver) option" where
  "startStream h addr ndef deviceMode s =
     (case openDevice h s of
        (False, s1) \<Rightarrow> Some (UNKNOWN_ERROR, s1)
      | (True, s1) \<Rightarrow>
          (case configureDevice h addr deviceMode (preview_padding s1) (preview_height s1)
                  ndef s1 of
             (False, s2) \<Rightarrow> Some (UNKNOWN_ERROR, closeDevice s2)
           | (True, s2) \<Rightarrow>
               (case startDevice h s2 of
                  None \<Rightarrow> None
                | Some (False, s3) \<Rightarrow>
                    Some (UNKNOWN_ERROR, closeDevice (deconfigureDevice h s3))
                | Some (True, s3) \<Rightarrow> Some (NO_ERROR, s3))))"

definition startPreview_drv :: "hw \<Rightarrow> (nat \<Rightarrow> nat) \<Rightarrow> nat \<Rightarrow> CameraDriver
    \<Rightarrow> (status_t \<times> CameraDriver) option" where
  "startPreview_drv h addr ndef s = startStream h addr ndef MODE_PREVIEW s"

definition startRecording_drv :: "hw \<Rightarrow> (nat \<Rightarrow> nat) \<Rightarrow> nat \<Rightarrow> CameraDriver
    \<Rightarrow> (status_t \<times> CameraDriver) option" where
  "startRecording_drv h addr ndef s = startStream h addr ndef MODE_VIDEO s"

definition startCapture_drv :: "hw \<Rightarrow> (nat \<Rightarrow> nat) \<Rightarrow> nat \<Rightarrow> CameraDriver
    \<Rightarrow> (status_t \<times> CameraDriver) option" where
  "startCapture_drv h addr ndef s = startStream h addr ndef MODE_CAPTURE s"

text \<open>\<open>stopPreview\<close>, \<open>stopRecording\<close> and \<open>stopCapture\<close> of the driver share one body.\<close>

definition stopStream :: "hw \<Rightarrow> CameraDriver \<Rightarrow> status_t \<times> CameraDriver" where
  "stopStream h s = (NO_ERROR, closeDevice (deconfigureDevice h (stopDevice h s)))"

text \<open>\<open>CameraDriver::start\<close>: a successful start records the mode and opens a new session.\<close>

definition start :: "hw \<Rightarrow> (nat \<Rightarrow> nat) \<Rightarrow> nat \<Rightarrow> Mode \<Rightarrow> CameraDriver
    \<Rightarrow> (status_t \<times> CameraDriver) option" where
  "start h addr ndef mode s =
     (case (case mode of
              MODE_PREVIEW \<Rightarrow> startPreview_drv h addr ndef s
            | MODE_VIDEO \<Rightarrow> startRecording_drv h addr ndef s
            | MODE_CAPTURE \<Rightarrow> startCapture_drv h addr ndef s
            | MODE_NONE \<Rightarrow> Some (NO_ERROR, s)) of
        None \<Rightarrow> None
      | Some (status, s1) \<Rightarrow>
          if status = NO_ERROR
          then Some (status, s1\<lparr>mMode := mode, mSessionId := mSessionId s1 + 1\<rparr>)
          else Some (status, s1))"

definition stop :: "hw \<Rightarrow> CameraDriver \<Rightarrow> status_t \<times> CameraDriver" where
  "stop h s =
     (case (case mMode s of
              MODE_PREVIEW \<Rightarrow> stopStream h s
            | MODE_VIDEO \<Rightarrow> stopStream h s
            | MODE_CAPTURE \<Rightarrow> stopStream h s
            | MODE_NONE \<Rightarrow> (NO_ERROR, s)) of
        (status, s1) \<Rightarrow>
          if status = NO_ERROR then (status, s1\<lparr>mMode := MODE_NONE\<rparr>) else (status, s1))"

text \<open>The frame accessors of the driver.\<close>

definition getPreviewFrame :: "hw \<Rightarrow> CameraDriver
    \<Rightarrow> (status_t \<times> CameraBuffer option \<times> CameraDriver) option" where
  "getPreviewFrame h s =
     (if mMode s = MODE_NONE then Some (INVALID_OPERATION, None, s) else dequeueBuffer h s)"


definition getRecordingFrame :: "hw \<Rightarrow> CameraDriver
    \<Rightarrow> (status_t \<times> CameraBuffer option \<times> CameraDriver) option" where
  "getRecordingFrame h s =
     (if mMode s = MODE_NONE then Some (INVALID_OPERATION, None, s) else dequeueBuffer h s)"




text \<open>
  Runs of the driver: a list of operations, each with the answers of the hardware
  during it. A run is undefined (\<open>None\<close>) as soon as one operation is.
\<close>

datatype pool_op =
    OpAllocateBuffers nat
  | OpFreeBuffers
  | OpQueueBuffer CameraBuffer bool
  | OpDequeueBuffer
  | OpStart Mode
  | OpStop

fun exec_op :: "(nat \<Rightarrow> nat) \<Rightarrow> nat \<Rightarrow> hw \<Rightarrow> pool_op \<Rightarrow> CameraDriver \<Rightarrow> CameraDriver option" where
  "exec_op addr ndef h (OpAllocateBuffers n) s = Some (snd (allocateBuffers h addr n s))"
| "exec_op addr ndef h OpFreeBuffers s = Some (snd (freeBuffers h s))"
| "exec_op addr ndef h (OpQueueBuffer b init) s = map_option snd (queueBuffer h b init s)"
| "exec_op addr ndef h OpDequeueBuffer s = map_option (\<lambda>r. snd (snd r)) (dequeueBuffer h s)"
| "exec_op addr ndef h (OpStart mode) s = map_option snd (start h addr ndef mode s)"
| "exec_op addr ndef h OpStop s = Some (snd (stop h s))"

fun run_ops :: "(nat \<Rightarrow> nat) \<Rightarrow> nat \<Rightarrow> (hw \<times> pool_op) list \<Rightarrow> CameraDriver
    \<Rightarrow> CameraDriver option" where
  "run_ops addr ndef [] s = Some s"
| "run_ops addr ndef ((h, op) # rest) s =
     (case exec_op addr ndef h op s of
        None \<Rightarrow> None
      | Some s1 \<Rightarrow> run_ops addr ndef rest s1)"

text \<open>The buffers of the pool that the device does not hold.\<close>

definition heldOutside :: "CameraDriver \<Rightarrow> nat" where
  "heldOutside s =
     length (filter (\<lambda>i. i \<notin> set (dev_queue (dev s)))
               [0..<nat (numBuffers (mBufferPool s))])"

section \<open>The control thread (ControlThread.cpp)\<close>

text \<open>
  The payload of a control-thread message (the union \<open>msg.data\<close>): nothing, one buffer
  (\<open>previewDone\<close>, \<open>releasePreviewFrame\<close>), the address of a recording frame
  (\<open>releaseRecordingFrame\<close>), two buffers (\<open>pictureDone\<close>, \<open>redEyeRemovalDone\<close>), a
  parameter string, or a command with two arguments.
\<close>

datatype MessageData =
    NoData
  | BuffData CameraBuffer
  | RecordingFrameData nat
  | PictureData CameraBuffer CameraBuffer
  | ParametersData string
  | CommandData int int int

datatype State =
  STATE_STOPPED | STATE_PREVIEW_STILL | STATE_PREVIEW_VIDEO | STATE_RECORDING | STATE_CAPTURE

record CoupledBuffer =
  previewBuff :: CameraBuffer
  recordingBuff :: CameraBuffer
  previewBuffReturned :: bool
  recordingBuffReturned :: bool
  videoSnapshotBuff :: bool
  videoSnapshotBuffReturned :: bool

text \<open>
  The fields of the control thread that the code below reads and writes.
  \<open>mCoupledBuffers\<close> is \<open>None\<close> for the null pointer; \<open>startPreviewCore\<close> allocates
  it with \<open>mNumBuffers\<close> entries.
\<close>

record ControlThread =
  mDriver :: CameraDriver
  mMessageQueue :: "MessageData MessageQueue"
  mState :: State
  mThreadRunning :: bool
  mCoupledBuffers :: "CoupledBuffer list option"
  mNumBuffers :: int
  mFaceDetectionActive :: bool
  mLastRecordingBuffIndex :: int

subsection \<open>The caller-facing calls\<close>



















subsection \<open>Coupled buffers\<close>









subsection \<open>Two handlers that answer their caller\<close>



subsection \<open>Starting the preview\<close>






subsection \<open>The event loop\<close>

text \<open>
  What one iteration of the \<open>while\<close> loop of \<open>threadLoop\<close> calls. In the video states
  \<open>dequeueRecording\<close> is followed by \<open>dequeuePreview\<close> when it succeeded. The state
  \<open>STATE_CAPTURE\<close> has no case of its own in the \<open>switch\<close> and falls to
  \<open>default: break\<close>.
\<close>

datatype loop_call =
  CallWaitForAndExecuteMessage | CallDequeuePreview | CallDequeueRecording | CallNothing

definition threadLoop_iteration :: "ControlThread \<Rightarrow> loop_call" where
  "threadLoop_iteration ct =
     (case mState ct of
        STATE_STOPPED \<Rightarrow> CallWaitForAndExecuteMessage
      | STATE_PREVIEW_STILL \<Rightarrow>
          if \<not> isEmpty (mMessageQueue ct) then CallWaitForAndExecuteMessage
          else if dataAvailable (mDriver ct) then CallDequeuePreview
          else CallWaitForAndExecuteMessage
      | STATE_PREVIEW_VIDEO \<Rightarrow>
          if \<not> isEmpty (mMessageQueue ct) then CallWaitForAndExecuteMessage
          else if dataAvailable (mDriver ct) then CallDequeueRecording
          else CallWaitForAndExecuteMessage
      | STATE_RECORDING \<Rightarrow>
          if \<not> isEmpty (mMessageQueue ct) then CallWaitForAndExecuteMessage
          else if dataAvailable (mDriver ct) then CallDequeueRecording
          else CallWaitForAndExecuteMessage
      | STATE_CAPTURE \<Rightarrow> CallNothing)"

text \<open>
  \<open>waitForAndExecuteMessage\<close> starts with \<open>receive\<close>: it waits while the queue is
  empty (\<open>None\<close>) and otherwise takes one message, which the \<open>switch\<close> hands to its
  handler.
\<close>

definition waitForAndExecuteMessage_receive :: "ControlThread
    \<Rightarrow> (MessageData Message \<times> ControlThread) option" where
  "waitForAndExecuteMessage_receive ct =
     (case receive (mMessageQueue ct) of
        None \<Rightarrow> None
      | Some (msg, q) \<Rightarrow> Some (msg, ct\<lparr>mMessageQueue := q\<rparr>))"

subsection \<open>Release events of one coupled buffer\<close>







section \<open>Dynamic parameters (ControlThread.cpp, processDynamicParameters)\<close>

text \<open>
  The settings of the driver. Each setter of this driver accepts one value only.
\<close>

datatype Effect =
    EFFECT_NONE | EFFECT_MONO | EFFECT_NEGATIVE | EFFECT_SOLARIZE | EFFECT_SEPIA
  | EFFECT_POSTERIZE | EFFECT_WHITEBOARD | EFFECT_BLACKBOARD | EFFECT_AQUA

datatype FlashMode =
  FLASH_MODE_AUTO | FLASH_MODE_OFF | FLASH_MODE_ON | FLASH_MODE_TORCH | FLASH_MODE_RED_EYE

datatype SceneMode =
    SCENE_MODE_AUTO | SCENE_MODE_ACTION | SCENE_MODE_PORTRAIT | SCENE_MODE_LANDSCAPE
  | SCENE_MODE_NIGHT | SCENE_MODE_NIGHT_PORTRAIT | SCENE_MODE_THEATRE | SCENE_MODE_BEACH
  | SCENE_MODE_SNOW | SCENE_MODE_SUNSET | SCENE_MODE_STEADYPHOTO | SCENE_MODE_FIREWORKS
  | SCENE_MODE_SPORTS | SCENE_MODE_PARTY | SCENE_MODE_CANDLELIGHT | SCENE_MODE_BARCODE

datatype FocusMode =
    FOCUS_MODE_INFINITY | FOCUS_MODE_MACRO | FOCUS_MODE_AUTO | FOCUS_MODE_FIXED
  | FOCUS_MODE_EDOF | FOCUS_MODE_CONTINUOUS_VIDEO | FOCUS_MODE_CONTINUOUS_PICTURE

datatype WhiteBalanceMode =
    WHITE_BALANCE_AUTO | WHITE_BALANCE_INCANDESCENT | WHITE_BALANCE_FLUORESCENT
  | WHITE_BALANCE_DAYLIGHT | WHITE_BALANCE_CLOUDY_DAYLIGHT | WHITE_BALANCE_TWILIGHT
  | WHITE_BALANCE_SHADE


definition setFlashMode :: "FlashMode \<Rightarrow> status_t" where
  "setFlashMode flashMode = (if flashMode \<noteq> FLASH_MODE_OFF then BAD_VALUE else NO_ERROR)"

definition setSceneMode :: "SceneMode \<Rightarrow> status_t" where
  "setSceneMode sceneMode = (if sceneMode \<noteq> SCENE_MODE_AUTO then BAD_VALUE else NO_ERROR)"


definition setWhiteBalanceMode :: "WhiteBalanceMode \<Rightarrow> status_t" where
  "setWhiteBalanceMode wbMode = (if wbMode \<noteq> WHITE_BALANCE_AUTO then BAD_VALUE else NO_ERROR)"

definition setAeLock :: "bool \<Rightarrow> status_t" where
  "setAeLock lock = INVALID_OPERATION"

definition setAwbLock :: "bool \<Rightarrow> status_t" where
  "setAwbLock lock = INVALID_OPERATION"


text \<open>
  The calls into the driver that \<open>processDynamicParameters\<close> makes, as a log. Focus and
  metering calls are logged with the number of windows they pass (the windows reach the
  driver rescaled by \<open>preSetCameraWindows\<close>; this driver does not look at them).
\<close>

datatype driver_call =
    SetZoom int
  | SetEffect Effect
  | SetFlashMode FlashMode
  | SetSceneMode SceneMode
  | SetFocusMode FocusMode nat
  | SetWhiteBalanceMode WhiteBalanceMode
  | SetAeLock bool
  | SetAwbLock bool
  | SetMeteringAreas nat





















text \<open>
  The place of a driver call in the order zoom, effect, flash, scene, focus, white
  balance, AE lock, AWB lock, metering areas.
\<close>

fun fieldRank :: "driver_call \<Rightarrow> nat" where
  "fieldRank (SetZoom z) = 0"
| "fieldRank (SetEffect e) = 1"
| "fieldRank (SetFlashMode f) = 2"
| "fieldRank (SetSceneMode sc) = 3"
| "fieldRank (SetFocusMode f n) = 4"
| "fieldRank (SetWhiteBalanceMode w) = 5"
| "fieldRank (SetAeLock l) = 6"
| "fieldRank (SetAwbLock l) = 7"
| "fieldRank (SetMeteringAreas n) = 8"






text \<open>
  A list of calls that holds at most one call, of rank \<open>r\<close>; and a list of steps whose
  calls have the ranks \<open>k\<close>, \<open>k + 1\<close>, and so on.
\<close>

definition atRank :: "nat \<Rightarrow> driver_call list \<Rightarrow> bool" where
  "atRank r cs = (length cs \<le> 1 \<and> (\<forall>c \<in> set cs. fieldRank c = r))"


subsection \<open>Notions used in the proofs about coupled buffers\<close>

text \<open>
  The control thread with entry \<open>i\<close> of the coupled buffers replaced; a recording
  control thread that has an entry \<open>i\<close>; the guard of \<open>queueCoupledBuffers\<close>; what
  each release event writes into the entry before and after the guard is tested; two
  entries with the same buffers; and the flags of an entry that still waits for the
  events of a list.
\<close>

definition withEntry :: "ControlThread \<Rightarrow> nat \<Rightarrow> CoupledBuffer \<Rightarrow> ControlThread" where
  "withEntry ct i c = ct\<lparr>mCoupledBuffers := map_option (\<lambda>cbs. cbs[i := c]) (mCoupledBuffers ct)\<rparr>"

definition inSession :: "ControlThread \<Rightarrow> nat \<Rightarrow> bool" where
  "inSession ct i =
     (mState ct = STATE_RECORDING
      \<and> (case mCoupledBuffers ct of None \<Rightarrow> False
          | Some cbs \<Rightarrow> mNumBuffers ct = int (length cbs) \<and> i < length cbs))"






text \<open>
  The invariant that ties the pool to the device: without buffers both counters are 0;
  with buffers the pool size is the number of buffers allocated and granted, and the
  counter is the number of distinct indices the device holds.
\<close>

definition pool_inv :: "CameraDriver \<Rightarrow> bool" where
  "pool_inv s =
     (case bufs (mBufferPool s) of
        None \<Rightarrow> numBuffers (mBufferPool s) = 0 \<and> numBuffersQueued (mBufferPool s) = 0
      | Some bs \<Rightarrow>
          numBuffers (mBufferPool s) = int (length bs)
          \<and> dev_count (dev s) = length bs
          \<and> numBuffersQueued (mBufferPool s) = int (length (dev_queue (dev s)))
          \<and> distinct (dev_queue (dev s))
          \<and> (\<forall>i \<in> set (dev_queue (dev s)). i < length bs))"


section \<open>Example states\<close>

text \<open>
  A hardware that lets every ioctl through, an allocator, and a short history of the
  driver: constructed, started for preview with one buffer, that buffer dequeued, stopped,
  started again for video.
\<close>

definition hw_ok :: hw where
  "hw_ok = \<lparr>hw_open = True, hw_s_parm = True, hw_s_fmt = True, hw_reqbufs = True,
            hw_querybuf = (\<lambda>_. True), hw_qbuf = (\<lambda>_. True), hw_dqbuf = True,
            hw_streamon = True, hw_streamoff = True\<rparr>"


definition addr0 :: "nat \<Rightarrow> nat" where
  "addr0 i = 4096 + i"

definition ex_init :: CameraDriver where
  "ex_init = CameraDriver_init 640 480"

definition ex_started :: CameraDriver where
  "ex_started =
     \<lparr>mMode = MODE_PREVIEW, mSessionId = 1,
      mBufferPool = \<lparr>numBuffers = 1, numBuffersQueued = 1,
        bufs = Some [\<lparr>camBuff = \<lparr>mID = 0, mDriverPrivate = 0, buff = Some 4096\<rparr>, vBuff = 0\<rparr>]\<rparr>,
      fd_open = True, preview_padding = 640, preview_height = 480,
      dev = \<lparr>dev_count = 1, dev_queue = [0], dev_qbuf_log = [0]\<rparr>\<rparr>"

definition ex_buffer :: CameraBuffer where
  "ex_buffer = \<lparr>mID = 0, mDriverPrivate = 1, buff = Some 4096\<rparr>"

definition ex_dequeued :: CameraDriver where
  "ex_dequeued =
     \<lparr>mMode = MODE_PREVIEW, mSessionId = 1,
      mBufferPool = \<lparr>numBuffers = 1, numBuffersQueued = 0,
        bufs = Some [\<lparr>camBuff = \<lparr>mID = 0, mDriverPrivate = 1, buff = Some 4096\<rparr>, vBuff = 0\<rparr>]\<rparr>,
      fd_open = True, preview_padding = 640, preview_height = 480,
      dev = \<lparr>dev_count = 1, dev_queue = [], dev_qbuf_log = [0]\<rparr>\<rparr>"

definition ex_stopped :: CameraDriver where
  "ex_stopped =
     \<lparr>mMode = MODE_NONE, mSessionId = 1,
      mBufferPool = \<lparr>numBuffers = 0, numBuffersQueued = 0, bufs = None\<rparr>,
      fd_open = False, preview_padding = 640, preview_height = 480,
      dev = \<lparr>dev_count = 0, dev_queue = [], dev_qbuf_log = [0]\<rparr>\<rparr>"

definition ex_restarted :: CameraDriver where
  "ex_restarted =
     \<lparr>mMode = MODE_VIDEO, mSessionId = 2,
      mBufferPool = \<lparr>numBuffers = 1, numBuffersQueued = 1,
        bufs = Some [\<lparr>camBuff = \<lparr>mID = 0, mDriverPrivate = 0, buff = Some 4096\<rparr>, vBuff = 0\<rparr>]\<rparr>,
      fd_open = True, preview_padding = 640, preview_height = 480,
      dev = \<lparr>dev_count = 1, dev_queue = [0], dev_qbuf_log = [0, 0]\<rparr>\<rparr>"

definition ex_ops :: "(hw \<times> pool_op) list" where
  "ex_ops = [(hw_ok, OpStart MODE_PREVIEW), (hw_ok, OpDequeueBuffer)]"

text \<open>
  The restarted driver after its buffer was dequeued again, and a recording control
  thread around it whose only coupled entry holds that frame on both sides.
\<close>

definition ex_frame :: CameraBuffer where
  "ex_frame = \<lparr>mID = 0, mDriverPrivate = 2, buff = Some 4096\<rparr>"

definition ex_rec_driver :: CameraDriver where
  "ex_rec_driver =
     \<lparr>mMode = MODE_VIDEO, mSessionId = 2,
      mBufferPool = \<lparr>numBuffers = 1, numBuffersQueued = 0,
        bufs = Some [\<lparr>camBuff = \<lparr>mID = 0, mDriverPrivate = 2, buff = Some 4096\<rparr>, vBuff = 0\<rparr>]\<rparr>,
      fd_open = True, preview_padding = 640, preview_height = 480,
      dev = \<lparr>dev_count = 1, dev_queue = [], dev_qbuf_log = [0, 0]\<rparr>\<rparr>"


definition ex_queue :: "MessageData MessageQueue" where
  "ex_queue = \<lparr>mList = [], mNumReply = 18, mReplyStatus = (\<lambda>_. NO_ERROR)\<rparr>"




text \<open>
  A control thread in the capture state: the driver runs in capture mode, the snapshot
  frame is out, and the picture thread's completion message waits in the queue.
\<close>

definition ex_picture_done :: "MessageData Message" where
  "ex_picture_done = \<lparr>id = MESSAGE_ID_PICTURE_DONE, data = PictureData ex_frame ex_frame\<rparr>"

definition ex_ct_capture :: ControlThread where
  "ex_ct_capture =
     \<lparr>mDriver = ex_rec_driver\<lparr>mMode := MODE_CAPTURE\<rparr>,
      mMessageQueue = ex_queue\<lparr>mList := [ex_picture_done]\<rparr>, mState = STATE_CAPTURE,
      mThreadRunning = True, mCoupledBuffers = None, mNumBuffers = 1,
      mFaceDetectionActive = False, mLastRecordingBuffIndex = 0\<rparr>"



text \<open>
  A queue whose consumer has taken the only message while its sender still waits for
  the reply.
\<close>

definition ex_start_preview :: "MessageData Message" where
  "ex_start_preview = \<lparr>id = MESSAGE_ID_START_PREVIEW, data = NoData\<rparr>"

definition ex_queue_sent :: "MessageData MessageQueue" where
  "ex_queue_sent =
     \<lparr>mList = [ex_start_preview], mNumReply = 18,
      mReplyStatus = (\<lambda>_. NO_ERROR)(MESSAGE_ID_START_PREVIEW := WOULD_BLOCK)\<rparr>"

definition ex_queue_taken :: "MessageData MessageQueue" where
  "ex_queue_taken =
     \<lparr>mList = [], mNumReply = 18,
      mReplyStatus = (\<lambda>_. NO_ERROR)(MESSAGE_ID_START_PREVIEW := WOULD_BLOCK)\<rparr>"





section \<open>Properties of window validation\<close>

text \<open>
  C10. \<open>verifyCameraWindow\<close> accepts a window exactly when its right edge is strictly
  right of its left edge, its bottom edge strictly below its top edge, all four
  coordinates lie in [-1000, 1000] and the weight lies in [1, 1000]. The window
  (0, 0, 100, 100, 10) is accepted; the window (100, 0, 50, 100, 10) is rejected.
\<close>

theorem verifyCameraWindow_iff:
  "(verifyCameraWindow win =
      (x_left win < x_right win \<and> y_top win < y_bottom win
       \<and> -1000 \<le> x_left win \<and> x_left win \<le> 1000
       \<and> -1000 \<le> y_top win \<and> y_top win \<le> 1000
       \<and> -1000 \<le> x_right win \<and> x_right win \<le> 1000
       \<and> -1000 \<le> y_bottom win \<and> y_bottom win \<le> 1000
       \<and> 1 \<le> weight win \<and> weight win \<le> 1000))
   \<and> verifyCameraWindow
        \<lparr>x_left = 0, y_top = 0, x_right = 100, y_bottom = 100, weight = 10\<rparr>
   \<and> \<not> verifyCameraWindow
        \<lparr>x_left = 100, y_top = 0, x_right = 50, y_bottom = 100, weight = 10\<rparr>"
  by (auto simp: verifyCameraWindow_def)

section \<open>Properties of the message queue\<close>

lemma mList_send_all:
  "mList (send_all q reqs) = rev (map fst (filter (enqueued q) reqs)) @ mList q"
proof (induction reqs arbitrary: q)
  case Nil
  then show ?case by simp
next
  case (Cons req reqs)
  obtain msg r where req: "req = (msg, r)" by (cases req)
  have n: "mNumReply (fst (send q msg r)) = mNumReply q"
    by (simp add: send_def split: option.splits)
  have e: "enqueued (fst (send q msg r)) = enqueued q"
    by (rule ext) (simp add: enqueued_def n)
  have l: "mList (fst (send q msg r)) = (if enqueued q (msg, r) then msg # mList q else mList q)"
    by (simp add: send_def enqueued_def split: option.splits)
  show ?case
    using Cons.IH [of "fst (send q msg r)"] by (simp add: req e l)
qed

lemma receive_n_rev:
  "receive_n (length xs) q = Some (xs, q\<lparr>mList := ys\<rparr>)" if "mList q = ys @ rev xs"
  using that
proof (induction xs arbitrary: q)
  case Nil
  then show ?case by simp
next
  case (Cons x xs)
  have r: "receive q = Some (x, q\<lparr>mList := ys @ rev xs\<rparr>)"
    using Cons.prems by (simp add: receive_def isEmpty_def butlast_append)
  have "receive_n (length xs) (q\<lparr>mList := ys @ rev xs\<rparr>)
          = Some (xs, q\<lparr>mList := ys @ rev xs\<rparr>\<lparr>mList := ys\<rparr>)"
    by (rule Cons.IH) simp
  then show ?case by (simp add: r)
qed

text \<open>
  C9. Commands sent through \<open>send\<close> onto an empty queue are handed out by successive
  \<open>receive\<close> calls in exactly the order they were sent, oldest first, and the queue
  is empty afterwards. (A send that asks for a reply on a queue without reply slots
  is refused by \<open>send\<close> and never enqueued.)
\<close>

theorem send_receive_fifo:
  assumes "mList q = []"
  shows "\<exists>q'. receive_n (length (filter (enqueued q) reqs)) (send_all q reqs)
            = Some (map fst (filter (enqueued q) reqs), q') \<and> mList q' = []"
proof -
  let ?xs = "map fst (filter (enqueued q) reqs)"
  have "mList (send_all q reqs) = [] @ rev ?xs"
    using assms by (simp add: mList_send_all)
  then have "receive_n (length ?xs) (send_all q reqs)
               = Some (?xs, (send_all q reqs)\<lparr>mList := []\<rparr>)"
    by (rule receive_n_rev)
  then show ?thesis by auto
qed

theorem send_receive_fifo_witness:
  "mList \<lparr>mList = ([] :: unit Message list), mNumReply = 0, mReplyStatus = (\<lambda>_. NO_ERROR)\<rparr> = []
   \<and> (\<exists>q'. receive_n (Suc (Suc 0))
          (send_all \<lparr>mList = [], mNumReply = 0, mReplyStatus = (\<lambda>_. NO_ERROR)\<rparr>
             [(\<lparr>id = MESSAGE_ID_TAKE_PICTURE, data = ()\<rparr>, None),
              (\<lparr>id = MESSAGE_ID_START_PREVIEW, data = ()\<rparr>, Some MESSAGE_ID_START_PREVIEW),
              (\<lparr>id = MESSAGE_ID_EXIT, data = ()\<rparr>, None)])
        = Some ([\<lparr>id = MESSAGE_ID_TAKE_PICTURE, data = ()\<rparr>,
                 \<lparr>id = MESSAGE_ID_EXIT, data = ()\<rparr>], q') \<and> mList q' = [])"
  using send_receive_fifo
    [of "\<lparr>mList = ([] :: unit Message list), mNumReply = 0, mReplyStatus = (\<lambda>_. NO_ERROR)\<rparr>"
        "[(\<lparr>id = MESSAGE_ID_TAKE_PICTURE, data = ()\<rparr>, None),
          (\<lparr>id = MESSAGE_ID_START_PREVIEW, data = ()\<rparr>, Some MESSAGE_ID_START_PREVIEW),
          (\<lparr>id = MESSAGE_ID_EXIT, data = ()\<rparr>, None)]"]
  by (simp add: enqueued_def)

section \<open>Properties of the buffer pool\<close>

lemma allocateLoop_length:
  "allocateLoop h addr is = Some bs \<Longrightarrow> length bs = length is"
  by (induction "is" arbitrary: bs) (auto split: option.splits)

lemma pool_inv_allocateBuffers:
  "pool_inv s \<Longrightarrow> pool_inv (snd (allocateBuffers h addr n s))"
  by (auto simp: pool_inv_def allocateBuffers_def ioctl_REQBUFS_def zeroPool_def
      dest: allocateLoop_length split: option.splits if_splits)

lemma pool_inv_freeBuffers:
  "pool_inv s \<Longrightarrow> pool_inv (snd (freeBuffers h s))"
  by (auto simp: pool_inv_def freeBuffers_def zeroPool_def split: option.splits)

lemma pool_inv_queueBuffer:
  "pool_inv s \<Longrightarrow> queueBuffer h b init s = Some (st, s1) \<Longrightarrow> pool_inv s1"
  by (auto simp: pool_inv_def queueBuffer_def ioctl_QBUF_def
      split: option.splits if_splits)

lemma pool_inv_dequeueBuffer:
  "pool_inv s \<Longrightarrow> dequeueBuffer h s = Some (st, ob, s1) \<Longrightarrow> pool_inv s1"
  by (auto simp: pool_inv_def dequeueBuffer_def ioctl_DQBUF_def Let_def
      split: option.splits if_splits list.splits)

lemma pool_inv_startDeviceLoop:
  "pool_inv s \<Longrightarrow> startDeviceLoop h is s = Some (ok, s1) \<Longrightarrow> pool_inv s1"
proof (induction "is" arbitrary: s)
  case Nil
  then show ?case by simp
next
  case (Cons i "is")
  then show ?case
    by (auto split: option.splits if_splits dest: pool_inv_queueBuffer)
qed

lemma pool_inv_startDevice:
  "pool_inv s \<Longrightarrow> startDevice h s = Some (ok, s1) \<Longrightarrow> pool_inv s1"
  by (auto simp: startDevice_def split: option.splits bool.splits if_splits
      dest: pool_inv_startDeviceLoop)

lemma pool_inv_fd: "pool_inv (s\<lparr>fd_open := x\<rparr>) = pool_inv s"
  by (simp add: pool_inv_def split: option.splits)

lemma pool_inv_mMode: "pool_inv (s\<lparr>mMode := x\<rparr>) = pool_inv s"
  by (simp add: pool_inv_def split: option.splits)

lemma pool_inv_session: "pool_inv (s\<lparr>mSessionId := x\<rparr>) = pool_inv s"
  by (simp add: pool_inv_def split: option.splits)

lemma pool_inv_closeDevice: "pool_inv (closeDevice s) = pool_inv s"
  by (simp add: closeDevice_def pool_inv_fd)

lemma pool_inv_deconfigureDevice: "pool_inv s \<Longrightarrow> pool_inv (deconfigureDevice h s)"
  by (simp add: deconfigureDevice_def pool_inv_freeBuffers)

lemma pool_inv_startStream:
  "pool_inv s \<Longrightarrow> startStream h addr ndef m s = Some (st, s1) \<Longrightarrow> pool_inv s1"
proof -
  assume inv: "pool_inv s" and run: "startStream h addr ndef m s = Some (st, s1)"
  obtain ok1 sa where o: "openDevice h s = (ok1, sa)" by (cases "openDevice h s")
  have ia: "pool_inv sa"
    using o inv by (auto simp: openDevice_def pool_inv_fd split: if_splits)
  obtain ok2 sb where c: "configureDevice h addr m (preview_padding sa) (preview_height sa) ndef sa = (ok2, sb)"
    by (cases "configureDevice h addr m (preview_padding sa) (preview_height sa) ndef sa")
  have ib: "pool_inv sb"
    using c ia pool_inv_allocateBuffers [of sa h addr ndef]
    by (auto simp: configureDevice_def split: if_splits prod.splits)
  show "pool_inv s1"
    using run o c ia ib
    by (auto simp: startStream_def pool_inv_closeDevice
        split: option.splits bool.splits
        dest!: pool_inv_startDevice [OF ib] intro!: pool_inv_deconfigureDevice)
qed

lemma start_cases:
  assumes "start h addr ndef m s = Some (st, s1)"
  shows "(m = MODE_NONE \<and> st = NO_ERROR \<and> s1 = s\<lparr>mMode := m, mSessionId := mSessionId s + 1\<rparr>)
       \<or> (\<exists>s2. m \<noteq> MODE_NONE \<and> startStream h addr ndef m s = Some (st, s2)
             \<and> s1 = (if st = NO_ERROR then s2\<lparr>mMode := m, mSessionId := mSessionId s2 + 1\<rparr> else s2))"
  using assms
  by (cases m)
     (auto simp: start_def startPreview_drv_def startRecording_drv_def startCapture_drv_def
      split: option.splits if_splits)

lemma pool_inv_start:
  assumes "pool_inv s" and "start h addr ndef m s = Some (st, s1)"
  shows "pool_inv s1"
  using start_cases [OF assms(2)]
proof (elim disjE conjE exE)
  assume "s1 = s\<lparr>mMode := m, mSessionId := mSessionId s + 1\<rparr>"
  then show ?thesis using assms(1) by (simp add: pool_inv_def split: option.splits)
next
  fix s2
  assume r: "startStream h addr ndef m s = Some (st, s2)"
    and e: "s1 = (if st = NO_ERROR then s2\<lparr>mMode := m, mSessionId := mSessionId s2 + 1\<rparr> else s2)"
  have "pool_inv s2" using assms(1) r by (rule pool_inv_startStream)
  then show ?thesis using e by (simp add: pool_inv_def split: option.splits)
qed

lemma pool_inv_deconfigure_any_dev:
  "pool_inv s \<Longrightarrow> pool_inv (deconfigureDevice h (s\<lparr>dev := d\<rparr>))"
  by (auto simp: pool_inv_def deconfigureDevice_def freeBuffers_def zeroPool_def
      split: option.splits)

lemma pool_inv_stopStream: "pool_inv s \<Longrightarrow> pool_inv (snd (stopStream h s))"
  by (simp add: stopStream_def pool_inv_closeDevice stopDevice_def pool_inv_deconfigure_any_dev)


lemma pool_inv_stop: "pool_inv s \<Longrightarrow> pool_inv (snd (stop h s))"
  using pool_inv_stopStream [of s h]
  by (cases "mMode s"; cases "stopStream h s")
     (auto simp: stop_def pool_inv_mMode)

lemma pool_inv_exec:
  "pool_inv s \<Longrightarrow> exec_op addr ndef h op s = Some s1 \<Longrightarrow> pool_inv s1"
  by (cases op)
     (auto intro: pool_inv_allocateBuffers pool_inv_freeBuffers pool_inv_stop
        dest: pool_inv_queueBuffer pool_inv_dequeueBuffer pool_inv_start)

lemma pool_inv_run:
  "pool_inv s \<Longrightarrow> run_ops addr ndef ops s = Some s1 \<Longrightarrow> pool_inv s1"
proof (induction ops arbitrary: s)
  case Nil
  then show ?case by simp
next
  case (Cons hop ops)
  obtain h op where hop: "hop = (h, op)" by (cases hop)
  from Cons.prems obtain s2 where
    e: "exec_op addr ndef h op s = Some s2" and r: "run_ops addr ndef ops s2 = Some s1"
    by (auto simp: hop split: option.splits)
  from Cons.prems(1) e have "pool_inv s2" by (rule pool_inv_exec)
  then show ?case using r by (rule Cons.IH)
qed

lemma pool_inv_init: "pool_inv (CameraDriver_init p hgt)"
  by (simp add: pool_inv_def CameraDriver_init_def zeroPool_def)

lemma distinct_bounded_length:
  "distinct xs \<Longrightarrow> \<forall>i \<in> set xs. i < n \<Longrightarrow> length xs \<le> n"
proof -
  assume d: "distinct xs" and b: "\<forall>i \<in> set xs. i < n"
  have "card (set xs) \<le> card {..<n}"
    by (rule card_mono) (use b in auto)
  then show ?thesis using d by (simp add: distinct_card)
qed

lemma held_count:
  "distinct xs \<Longrightarrow> \<forall>i \<in> set xs. i < n \<Longrightarrow>
   length (filter (\<lambda>i. i \<notin> set xs) [0..<n]) + length xs = n"
proof -
  assume d: "distinct xs" and b: "\<forall>i \<in> set xs. i < n"
  have "length (filter (\<lambda>i. i \<notin> set xs) [0..<n]) = card ({..<n} - set xs)"
  proof -
    have "set (filter (\<lambda>i. i \<notin> set xs) [0..<n]) = {..<n} - set xs" by auto
    moreover have "distinct (filter (\<lambda>i. i \<notin> set xs) [0..<n])" by simp
    ultimately show ?thesis by (metis distinct_card)
  qed
  also have "\<dots> = card {..<n} - card (set xs)"
    by (rule card_Diff_subset) (use b in auto)
  finally show ?thesis
    using distinct_bounded_length [OF d b] d by (simp add: distinct_card)
qed

text \<open>
  C8. After every sequence of \<open>allocateBuffers\<close>, \<open>freeBuffers\<close>, \<open>queueBuffer\<close>,
  \<open>dequeueBuffer\<close>, \<open>start\<close> and \<open>stop\<close> calls on a freshly constructed driver,
  whatever their arguments and whatever the hardware answers, the queued-buffer counter
  lies between 0 and the pool size, and the counter plus the number of pool buffers the
  device does not hold (those with consumers or still with the pool) is the pool size.
\<close>

theorem buffer_conservation:
  assumes "run_ops addr ndef ops (CameraDriver_init p hgt) = Some s"
  shows "0 \<le> numBuffersQueued (mBufferPool s)
       \<and> numBuffersQueued (mBufferPool s) \<le> numBuffers (mBufferPool s)
       \<and> numBuffersQueued (mBufferPool s) + int (heldOutside s) = numBuffers (mBufferPool s)"
proof -
  have inv: "pool_inv s"
    using pool_inv_init assms by (rule pool_inv_run)
  show ?thesis
  proof (cases "bufs (mBufferPool s)")
    case None
    then show ?thesis using inv by (simp add: pool_inv_def heldOutside_def)
  next
    case (Some bs)
    with inv have n: "numBuffers (mBufferPool s) = int (length bs)"
      and q: "numBuffersQueued (mBufferPool s) = int (length (dev_queue (dev s)))"
      and d: "distinct (dev_queue (dev s))"
      and b: "\<forall>i \<in> set (dev_queue (dev s)). i < length bs"
      by (simp_all add: pool_inv_def)
    from held_count [OF d b] distinct_bounded_length [OF d b]
    show ?thesis by (simp add: heldOutside_def n q)
  qed
qed

lemmas driver_defs =
  start_def startPreview_drv_def startRecording_drv_def startCapture_drv_def startStream_def
  openDevice_def closeDevice_def configureDevice_def deconfigureDevice_def
  allocateBuffers_def allocateBuffer_def freeBuffers_def startDevice_def stopDevice_def
  queueBuffer_def dequeueBuffer_def stop_def stopStream_def
  ioctl_REQBUFS_def ioctl_QBUF_def ioctl_DQBUF_def ioctl_STREAMOFF_def zeroPool_def
  hw_ok_def addr0_def CameraDriver_init_def Let_def

lemma ex_start: "start hw_ok addr0 1 MODE_PREVIEW ex_init = Some (NO_ERROR, ex_started)"
  by (simp add: driver_defs ex_init_def ex_started_def)

lemma ex_dequeue: "dequeueBuffer hw_ok ex_started = Some (NO_ERROR, Some ex_buffer, ex_dequeued)"
  by (simp add: driver_defs ex_started_def ex_buffer_def ex_dequeued_def)

lemma ex_stop: "stop hw_ok ex_dequeued = (NO_ERROR, ex_stopped)"
  by (simp add: driver_defs ex_dequeued_def ex_stopped_def)

lemma ex_restart: "start hw_ok addr0 1 MODE_VIDEO ex_stopped = Some (NO_ERROR, ex_restarted)"
  by (simp add: driver_defs ex_stopped_def ex_restarted_def)

lemma ex_run_defined: "run_ops addr0 1 ex_ops (CameraDriver_init 640 480) = Some ex_dequeued"
  using ex_start by (simp add: ex_ops_def ex_init_def ex_dequeue del: One_nat_def)

theorem buffer_conservation_witness:
  "0 \<le> numBuffersQueued (mBufferPool ex_dequeued)
   \<and> numBuffersQueued (mBufferPool ex_dequeued) \<le> numBuffers (mBufferPool ex_dequeued)
   \<and> numBuffersQueued (mBufferPool ex_dequeued) + int (heldOutside ex_dequeued)
       = numBuffers (mBufferPool ex_dequeued)"
  by (rule buffer_conservation [OF ex_run_defined])

section \<open>Properties of the session tag\<close>

lemma session_queueBuffer:
  "queueBuffer h b init s = Some (st, s1) \<Longrightarrow> mSessionId s1 = mSessionId s"
  by (auto simp: queueBuffer_def split: option.splits if_splits prod.splits bool.splits)

lemma session_dequeueBuffer:
  "dequeueBuffer h s = Some (st, ob, s1) \<Longrightarrow> mSessionId s1 = mSessionId s"
  by (auto simp: dequeueBuffer_def Let_def split: option.splits if_splits)

lemma tag_dequeueBuffer:
  "dequeueBuffer h s = Some (st, Some b, s1) \<Longrightarrow> mDriverPrivate b = mSessionId s"
  by (auto simp: dequeueBuffer_def Let_def split: option.splits if_splits)

lemma session_startDeviceLoop:
  "startDeviceLoop h is s = Some (ok, s1) \<Longrightarrow> mSessionId s1 = mSessionId s"
proof (induction "is" arbitrary: s)
  case Nil
  then show ?case by simp
next
  case (Cons i "is")
  then show ?case
    by (auto split: option.splits if_splits dest: session_queueBuffer)
qed

lemma session_startDevice:
  "startDevice h s = Some (ok, s1) \<Longrightarrow> mSessionId s1 = mSessionId s"
  by (auto simp: startDevice_def split: option.splits bool.splits if_splits
      dest: session_startDeviceLoop)

lemma session_allocateBuffers: "mSessionId (snd (allocateBuffers h addr n s)) = mSessionId s"
  by (auto simp: allocateBuffers_def split: option.splits prod.splits bool.splits)

lemma session_freeBuffers: "mSessionId (snd (freeBuffers h s)) = mSessionId s"
  by (simp add: freeBuffers_def)

lemma session_closeDevice: "mSessionId (closeDevice s) = mSessionId s"
  by (simp add: closeDevice_def)

lemma session_startStream:
  assumes "startStream h addr ndef m s = Some (st, s1)"
  shows "mSessionId s1 = mSessionId s"
proof -
  obtain ok1 sa where o: "openDevice h s = (ok1, sa)" by (cases "openDevice h s")
  have sa: "mSessionId sa = mSessionId s"
    using o by (auto simp: openDevice_def split: if_splits)
  obtain ok2 sb where c: "configureDevice h addr m (preview_padding sa) (preview_height sa) ndef sa = (ok2, sb)"
    by (cases "configureDevice h addr m (preview_padding sa) (preview_height sa) ndef sa")
  have sb: "mSessionId sb = mSessionId sa"
    using c session_allocateBuffers [of h addr ndef sa]
    by (auto simp: configureDevice_def split: if_splits prod.splits)
  show ?thesis
    using assms o c sa sb
    by (auto simp: startStream_def session_closeDevice deconfigureDevice_def session_freeBuffers
        split: option.splits bool.splits dest!: session_startDevice)
qed

lemma session_stop: "mSessionId (snd (stop h s)) = mSessionId s"
  by (cases "mMode s")
     (simp_all add: stop_def stopStream_def session_closeDevice deconfigureDevice_def
        session_freeBuffers stopDevice_def)

lemma session_start:
  assumes "start h addr ndef m s = Some (NO_ERROR, s1)"
  shows "mSessionId s1 = mSessionId s + 1"
  using start_cases [OF assms] by (auto dest: session_startStream)

text \<open>
  C2. A buffer dequeued while the session id is S carries the tag S. If the driver is
  then stopped and started again, the session id is S + 1, and \<open>queueBuffer\<close> with the
  initial-fill flag false returns \<open>DEAD_OBJECT\<close> for that buffer and leaves the whole
  driver state as it was: nothing is submitted to the device and the queued-buffer
  counter keeps its value.
\<close>

theorem stale_buffer_rejected:
  assumes "dequeueBuffer h0 s0 = Some (NO_ERROR, Some b, s1)"
    and "mSessionId s2 = mSessionId s0"
    and "stop h1 s2 = (NO_ERROR, s3)"
    and "start h2 addr ndef mode s3 = Some (NO_ERROR, s4)"
  shows "mSessionId s4 = mSessionId s0 + 1
       \<and> queueBuffer h3 b False s4 = Some (DEAD_OBJECT, s4)"
proof -
  have t: "mDriverPrivate b = mSessionId s0"
    using assms(1) by (rule tag_dequeueBuffer)
  have "mSessionId s3 = mSessionId s2"
    using session_stop [of h1 s2] assms(3) by simp
  then have n: "mSessionId s4 = mSessionId s0 + 1"
    using session_start [OF assms(4)] assms(2) by simp
  have "mDriverPrivate b \<noteq> mSessionId s4"
    using t n by simp
  then show ?thesis using n by (simp add: queueBuffer_def)
qed


theorem stale_buffer_rejected_witness:
  "mSessionId ex_restarted = mSessionId ex_started + 1
   \<and> queueBuffer hw_ok ex_buffer False ex_restarted = Some (DEAD_OBJECT, ex_restarted)"
  by (rule stale_buffer_rejected [OF ex_dequeue _ ex_stop ex_restart])
     (simp add: ex_dequeued_def ex_started_def)

section \<open>Properties of the coupled buffers\<close>

lemma inSession_withEntry: "inSession ct i \<Longrightarrow> inSession (withEntry ct i c) i"
  by (auto simp: inSession_def withEntry_def split: option.splits)


lemma withEntry_withEntry: "withEntry (withEntry ct i c) i c' = withEntry ct i c'"
  by (cases "mCoupledBuffers ct") (simp_all add: withEntry_def)





























section \<open>Properties of the reply slots\<close>

text \<open>
  C6 (as amended). On a queue with reply slots that is not empty when \<open>remove\<close> is
  called, \<open>remove\<close> erases every queued command of kind K, returns them, and resolves
  the reply slot of K with \<open>INVALID_OPERATION\<close> (the code's "cancelled"), which ends the
  wait of a sender blocked on K; this holds also when none of the queued commands is of
  kind K. On an empty queue \<open>remove\<close> returns \<open>NO_ERROR\<close> and changes nothing.
\<close>

theorem remove_cancels_reply:
  assumes "0 < mNumReply q"
  shows "(\<not> isEmpty q \<longrightarrow>
            fst (remove q K) = NO_ERROR
          \<and> mList (fst (snd (remove q K))) = filter (\<lambda>msg. id msg \<noteq> K) (mList q)
          \<and> snd (snd (remove q K)) = filter (\<lambda>msg. id msg = K) (mList q)
          \<and> mReplyStatus (fst (snd (remove q K))) K = INVALID_OPERATION
          \<and> send_wakeup (fst (snd (remove q K))) K = Some INVALID_OPERATION)
       \<and> (isEmpty q \<longrightarrow> remove q K = (NO_ERROR, q, []))"
  using assms by (simp add: remove_def reply_def send_wakeup_def Let_def)

theorem remove_cancels_reply_witness:
  "0 < mNumReply ex_queue_sent \<and> \<not> isEmpty ex_queue_sent
   \<and> fst (remove ex_queue_sent MESSAGE_ID_TAKE_PICTURE) = NO_ERROR
   \<and> mList (fst (snd (remove ex_queue_sent MESSAGE_ID_TAKE_PICTURE))) = [ex_start_preview]
   \<and> snd (snd (remove ex_queue_sent MESSAGE_ID_TAKE_PICTURE)) = []
   \<and> mReplyStatus (fst (snd (remove ex_queue_sent MESSAGE_ID_TAKE_PICTURE)))
        MESSAGE_ID_TAKE_PICTURE = INVALID_OPERATION
   \<and> send_wakeup (fst (snd (remove ex_queue_sent MESSAGE_ID_TAKE_PICTURE)))
        MESSAGE_ID_TAKE_PICTURE = Some INVALID_OPERATION"
proof -
  have a: "0 < mNumReply ex_queue_sent" by (simp add: ex_queue_sent_def)
  have b: "\<not> isEmpty ex_queue_sent" by (simp add: ex_queue_sent_def isEmpty_def)
  have c: "filter (\<lambda>msg. id msg \<noteq> MESSAGE_ID_TAKE_PICTURE) (mList ex_queue_sent)
      = [ex_start_preview]"
    "filter (\<lambda>msg. id msg = MESSAGE_ID_TAKE_PICTURE) (mList ex_queue_sent) = []"
    by (simp_all add: ex_queue_sent_def ex_start_preview_def)
  show ?thesis
    using remove_cancels_reply [OF a, of MESSAGE_ID_TAKE_PICTURE] a b c by simp
qed

text \<open>
  C6 (as stated) fails on an empty queue: a sender waits for the reply to a command that
  the consumer has already taken; \<open>remove\<close> of that kind leaves the slot at
  \<open>WOULD_BLOCK\<close>, and the sender keeps waiting.
\<close>

theorem remove_on_empty_queue_keeps_waiter:
  "send ex_queue ex_start_preview (Some MESSAGE_ID_START_PREVIEW)
     = (ex_queue_sent, Waits MESSAGE_ID_START_PREVIEW)
   \<and> receive ex_queue_sent = Some (ex_start_preview, ex_queue_taken)
   \<and> remove ex_queue_taken MESSAGE_ID_START_PREVIEW = (NO_ERROR, ex_queue_taken, [])
   \<and> send_wakeup ex_queue_taken MESSAGE_ID_START_PREVIEW = None"
  by (simp add: send_def receive_def remove_def isEmpty_def send_wakeup_def
      ex_queue_def ex_queue_sent_def ex_queue_taken_def)

text \<open>
  C3 fails in the capture state: with a command pending in the queue, which \<open>receive\<close>
  would hand out at once, the loop iteration calls nothing, neither the message handling
  nor a dequeue, and does not block either.
\<close>

theorem threadLoop_capture_handles_nothing:
  "\<not> isEmpty (mMessageQueue ex_ct_capture)
   \<and> waitForAndExecuteMessage_receive ex_ct_capture
       = Some (ex_picture_done, ex_ct_capture\<lparr>mMessageQueue := ex_queue\<rparr>)
   \<and> threadLoop_iteration ex_ct_capture = CallNothing"
  by (simp add: threadLoop_iteration_def waitForAndExecuteMessage_receive_def receive_def
      isEmpty_def ex_ct_capture_def ex_queue_def)

lemma threadLoop_prefers_messages:
  "mState ct \<noteq> STATE_CAPTURE \<Longrightarrow> \<not> isEmpty (mMessageQueue ct) \<Longrightarrow>
   threadLoop_iteration ct = CallWaitForAndExecuteMessage"
  by (cases "mState ct") (simp_all add: threadLoop_iteration_def)

lemma threadLoop_capture: "mState ct = STATE_CAPTURE \<Longrightarrow> threadLoop_iteration ct = CallNothing"
  by (simp add: threadLoop_iteration_def)

section \<open>Properties of the capture state\<close>






section \<open>Properties of the caller-facing calls\<close>







section \<open>Properties of the dynamic parameters\<close>

lemma atRank_Nil: "atRank r []"
  by (simp add: atRank_def)






















end
